theory Spec2Isabelle
  imports Complex_Main
begin

section \<open>The flow-field simulation of \<^verbatim>\<open>main.py\<close>\<close>

text \<open>
  The program keeps two module-level arrays: \<^verbatim>\<open>particlePositions\<close>, one row
  \<open>(x, y, velX, velY)\<close> per live particle, and \<^verbatim>\<open>pixelColourArray\<close>, a
  \<open>displayHeight \<times> displayWidth \<times> 3\<close> array of colour channels. Every function below
  is the function of the same name in \<^verbatim>\<open>main.py\<close>, with the two arrays passed in
  and returned as a record.

  Coordinates and velocities are NumPy \<^verbatim>\<open>float64\<close> values in the program. Here they
  are reals. Sums, products and quotients are exact; the remainder \<^verbatim>\<open>x % d\<close> of the
  boundary policy is modelled with the rounding of its one inexact step, because the
  range of its result depends on it. Where NumPy would produce \<^verbatim>\<open>inf\<close> or
  \<^verbatim>\<open>nan\<close> (a float divided by zero) the model stops with \<open>NonFinite\<close>. Python
  exceptions are values of type \<open>error\<close>.
\<close>

subsection \<open>Data\<close>

type_synonym particle = "real \<times> real \<times> real \<times> real"

type_synonym colour = "int \<times> int \<times> int"

datatype error = IndexError | ZeroDivisionError | NonFinite

text \<open>
  The configuration constants at the top of \<^verbatim>\<open>main.py\<close>. \<open>displayWidth\<close> and
  \<open>displayHeight\<close> are the values the module computes once as
  \<^verbatim>\<open>targetWindowSize // pixelScale\<close>. \<open>snoise2\<close> is the sampling function of the
  external \<^verbatim>\<open>noise\<close> library.
\<close>

record config =
  displayWidth :: int
  displayHeight :: int
  points :: nat
  noiseScale :: real
  pixelColourRGB :: colour
  friction :: real
  acceleration :: real
  mirrorEdgesOnContact :: bool
  interpolation :: bool
  snoise2 :: "real \<Rightarrow> real \<Rightarrow> real"

text \<open>
  The mutable state. \<open>pixelColourArray\<close> is a list of rows, read as
  \<^verbatim>\<open>pixelColourArray[y, x]\<close>. \<open>paintLog\<close> is an observer that is not in the
  program: \<open>drawParticle\<close> appends \<open>(currentPos, x, y)\<close> to it on entry, after
  truncating the coordinates, so that the calls made during a run can be counted.
  No function reads it.
\<close>

record state =
  particlePositions :: "particle list"
  pixelColourArray :: "colour list list"
  paintLog :: "(nat \<times> int \<times> int) list"

subsection \<open>Python and NumPy primitives\<close>

text \<open>\<^verbatim>\<open>int(x)\<close> on a float truncates towards zero.\<close>

definition py_int :: "real \<Rightarrow> int" where
  "py_int x = (if 0 \<le> x then \<lfloor>x\<rfloor> else \<lceil>x\<rceil>)"

text \<open>
  Rounding to \<^verbatim>\<open>float64\<close>: to the nearest number with a significand of 53 bits, ties
  to the even one. \<open>exponent2 a\<close> is the exponent of the leading bit of a positive \<open>a\<close>
  (\<open>bit_length\<close> is Python's \<^verbatim>\<open>int.bit_length\<close>) and \<open>pow2 e\<close> is \<open>2\<close> to the power \<open>e\<close>.
  The exponent range is not bounded: a sum of two \<^verbatim>\<open>float64\<close> values of the size of a
  canvas neither overflows nor loses bits to underflow.
\<close>

fun bit_length :: "nat \<Rightarrow> nat" where
  "bit_length n = (if n = 0 then 0 else Suc (bit_length (n div 2)))"

declare bit_length.simps [simp del]

definition exponent2 :: "real \<Rightarrow> int" where
  "exponent2 a =
     (if 1 \<le> a then int (bit_length (nat \<lfloor>a\<rfloor>)) - 1
      else - int (bit_length (nat (\<lceil>1 / a\<rceil> - 1))))"

definition pow2 :: "int \<Rightarrow> real" where
  "pow2 e = (if 0 \<le> e then 2 ^ nat e else 1 / 2 ^ nat (- e))"

definition round_half_even :: "real \<Rightarrow> int" where
  "round_half_even q =
     (let f = \<lfloor>q\<rfloor>;
          r = q - of_int f
      in if r < 1 / 2 then f
         else if 1 / 2 < r then f + 1
         else if even f then f else f + 1)"

definition float64 :: "real \<Rightarrow> real" where
  "float64 x =
     (if x = 0 then 0
      else let u = pow2 (exponent2 \<bar>x\<bar> - 52)
           in of_int (round_half_even (x / u)) * u)"

text \<open>C's \<^verbatim>\<open>fmod(a, b)\<close>: \<open>a\<close> minus \<open>b\<close> times the quotient truncated towards zero. It is exact.\<close>

definition fmod :: "real \<Rightarrow> real \<Rightarrow> real" where
  "fmod a b = a - b * of_int (if 0 \<le> a / b then \<lfloor>a / b\<rfloor> else \<lceil>a / b\<rceil>)"

text \<open>
  \<^verbatim>\<open>x % d\<close> on a float and a non-zero integer, as NumPy and Python compute it:
  \<^verbatim>\<open>mod = fmod(x, d)\<close>; if \<^verbatim>\<open>mod\<close> is not zero and its sign differs from that of
  \<open>d\<close>, then \<^verbatim>\<open>mod += d\<close>, a floating-point addition; a zero \<^verbatim>\<open>mod\<close> stays zero.
  The dimension \<open>d\<close> is taken to be a \<^verbatim>\<open>float64\<close> value itself.
\<close>

definition py_mod :: "real \<Rightarrow> int \<Rightarrow> real" where
  "py_mod x d =
     (let b = of_int d;
          m = fmod x b
      in if m \<noteq> 0 then (if (b < 0) \<noteq> (m < 0) then float64 (m + b) else m)
         else 0)"

text \<open>\<^verbatim>\<open>np.clip(v, lo, hi)\<close> is \<^verbatim>\<open>minimum(maximum(v, lo), hi)\<close>.\<close>

definition clip :: "int \<Rightarrow> int \<Rightarrow> int \<Rightarrow> int" where
  "clip v lo hi = min (max v lo) hi"

text \<open>
  An index into an axis of length \<open>n\<close>: NumPy counts a negative index from the end
  and raises \<^verbatim>\<open>IndexError\<close> outside \<open>[-n, n)\<close>.
\<close>

definition np_index :: "nat \<Rightarrow> int \<Rightarrow> nat option" where
  "np_index n i =
     (if 0 \<le> i \<and> i < int n then Some (nat i)
      else if - int n \<le> i \<and> i < 0 then Some (nat (int n + i))
      else None)"

text \<open>
  \<^verbatim>\<open>random.randint(a, b)\<close> returns some integer \<open>N\<close> with \<open>a \<le> N \<le> b\<close>: both
  ends are included.
\<close>

definition randint :: "int \<Rightarrow> int \<Rightarrow> int \<Rightarrow> bool" where
  "randint a b N = (a \<le> N \<and> N \<le> b)"

subsection \<open>Start-up\<close>

text \<open>
  The loop \<^verbatim>\<open>for _ in range(points)\<close> draws \<open>xo\<close> and \<open>yo\<close> and stacks the row
  \<open>(xo, yo, 0, 0)\<close> under the array. The draws are a parameter; \<open>valid_draws\<close> says
  that there are \<open>points\<close> of them and that each is a value \<^verbatim>\<open>randint\<close> can return.
\<close>

definition valid_draws :: "config \<Rightarrow> (int \<times> int) list \<Rightarrow> bool" where
  "valid_draws cfg draws =
     (length draws = points cfg \<and>
      list_all (\<lambda>(xo, yo). randint 0 (displayWidth cfg) xo \<and> randint 0 (displayHeight cfg) yo) draws)"

fun initParticles :: "particle list \<Rightarrow> (int \<times> int) list \<Rightarrow> particle list" where
  "initParticles ps [] = ps"
| "initParticles ps ((xo, yo) # draws) = initParticles (ps @ [(of_int xo, of_int yo, 0, 0)]) draws"

definition startup :: "config \<Rightarrow> (int \<times> int) list \<Rightarrow> state" where
  "startup cfg draws =
     \<lparr>particlePositions = initParticles [] draws,
      pixelColourArray = replicate (nat (displayHeight cfg)) (replicate (nat (displayWidth cfg)) (0, 0, 0)),
      paintLog = []\<rparr>"

subsection \<open>Interpolation\<close>

definition lerp :: "real \<Rightarrow> real \<Rightarrow> real \<Rightarrow> real" where
  "lerp a b t = a + (b - a) * t"

definition interpolate :: "real \<Rightarrow> real \<Rightarrow> real \<Rightarrow> real \<Rightarrow> nat \<Rightarrow> (real \<times> real) list" where
  "interpolate x1 y1 x2 y2 steps =
     map (\<lambda>i. let t = real i / real steps in (lerp x1 x2 t, lerp y1 y2 t)) [0..<steps]"

subsection \<open>Deleting a particle\<close>

text \<open>
  \<^verbatim>\<open>np.delete(particlePositions, index, axis=0)\<close> removes row \<open>index\<close> and raises
  \<^verbatim>\<open>IndexError\<close> when there is no such row. The progress bar that
  \<^verbatim>\<open>deleteParticle\<close> prints afterwards is output only.
\<close>

definition deleteParticle :: "nat \<Rightarrow> state \<Rightarrow> error + state" where
  "deleteParticle index s =
     (if index < length (particlePositions s)
      then Inr (s\<lparr>particlePositions :=
                   take index (particlePositions s) @ drop (Suc index) (particlePositions s)\<rparr>)
      else Inl IndexError)"

subsection \<open>Boundary policy\<close>

text \<open>
  \<^verbatim>\<open>boundPositionToWindow\<close> treats the two axes one after the other with the same
  block; \<open>boundAxis\<close> is that block for a dimension \<open>d\<close>. \<^verbatim>\<open>x %= displayWidth\<close> on a
  NumPy float with \<open>displayWidth = 0\<close> gives \<^verbatim>\<open>nan\<close>.
\<close>

definition boundAxis :: "config \<Rightarrow> int \<Rightarrow> real \<Rightarrow> nat \<Rightarrow> state \<Rightarrow> error + (real \<times> state)" where
  "boundAxis cfg d x particleID s =
     (if \<not> (0 \<le> x \<and> x < of_int d) then
        (if mirrorEdgesOnContact cfg then
           (if d = 0 then Inl NonFinite else Inr (py_mod x d, s))
         else
           (case deleteParticle particleID s of
              Inl e \<Rightarrow> Inl e
            | Inr s' \<Rightarrow> Inr (0, s')))
      else Inr (x, s))"

definition boundPositionToWindow ::
  "config \<Rightarrow> real \<Rightarrow> real \<Rightarrow> nat \<Rightarrow> state \<Rightarrow> error + ((real \<times> real) \<times> state)" where
  "boundPositionToWindow cfg x y particleID s =
     (case boundAxis cfg (displayWidth cfg) x particleID s of
        Inl e \<Rightarrow> Inl e
      | Inr (x', s1) \<Rightarrow>
          (case boundAxis cfg (displayHeight cfg) y particleID s1 of
             Inl e \<Rightarrow> Inl e
           | Inr (y', s2) \<Rightarrow> Inr ((x', y'), s2)))"

subsection \<open>Motion update\<close>

text \<open>
  The divisions are NumPy float divisions: by zero they give \<^verbatim>\<open>inf\<close> or
  \<^verbatim>\<open>nan\<close>, which is \<open>NonFinite\<close> here. \<^verbatim>\<open>particleID\<close> is not used by the
  function.
\<close>

definition getNewParticlePosition ::
  "config \<Rightarrow> real \<Rightarrow> real \<Rightarrow> real \<Rightarrow> real \<Rightarrow> nat \<Rightarrow> error + particle" where
  "getNewParticlePosition cfg x y velX velY particleID =
     (if displayWidth cfg + 1 = 0 \<or> displayHeight cfg + 1 = 0 \<or> friction cfg + 1 = 0
      then Inl NonFinite
      else
        let perlin = snoise2 cfg (x / of_int (displayWidth cfg + 1) * noiseScale cfg)
                                 (y / of_int (displayHeight cfg + 1) * noiseScale cfg);
            perlin = (perlin + 1) / 2;
            rad = pi * 2 * perlin;
            accelX = cos rad * acceleration cfg;
            accelY = sin rad * acceleration cfg;
            velX = (velX + accelX) / (friction cfg + 1);
            velY = (velY + accelY) / (friction cfg + 1);
            newX = x + velX;
            newY = y + velY
        in Inr (newX, newY, velX, velY))"

subsection \<open>Painting a cell\<close>

text \<open>
  \<^verbatim>\<open>currentPixel + pixelColourRGB\<close> adds a \<^verbatim>\<open>uint8\<close> row and a tuple of Python
  integers; NumPy widens the sum, so it does not wrap. The result is \<open>(1, s')\<close>
  when the particle died and \<open>(0, s')\<close> otherwise.
\<close>

definition drawParticle :: "config \<Rightarrow> real \<Rightarrow> real \<Rightarrow> nat \<Rightarrow> state \<Rightarrow> error + (nat \<times> state)" where
  "drawParticle cfg x y currentPos s0 =
     (let x = py_int x;
          y = py_int y;
          s = s0\<lparr>paintLog := paintLog s0 @ [(currentPos, x, y)]\<rparr>;
          buf = pixelColourArray s
      in case np_index (length buf) y of
           None \<Rightarrow> Inl IndexError
         | Some r \<Rightarrow>
             (case np_index (length (buf ! r)) x of
                None \<Rightarrow> Inl IndexError
              | Some c \<Rightarrow>
                  (case (buf ! r ! c, pixelColourRGB cfg) of
                     ((pr, pg, pb), (ir, ig, ib)) \<Rightarrow>
                       let newColor = (clip (pr + ir) 0 255, clip (pg + ig) 0 255, clip (pb + ib) 0 255)
                       in if newColor = (255, 255, 255) then
                            (case deleteParticle currentPos s of
                               Inl e \<Rightarrow> Inl e
                             | Inr s' \<Rightarrow> Inr (1, s'))
                          else Inr (0, s\<lparr>pixelColourArray := buf[r := (buf ! r)[c := newColor]]\<rparr>))))"

subsection \<open>Drawing the trail\<close>

text \<open>The \<^verbatim>\<open>for pos in lerpPositions\<close> loop of \<^verbatim>\<open>drawLine\<close>, with its two breaks.\<close>

fun drawLine_loop :: "config \<Rightarrow> (real \<times> real) list \<Rightarrow> nat \<Rightarrow> state \<Rightarrow> error + state" where
  "drawLine_loop cfg [] particleID s = Inr s"
| "drawLine_loop cfg (pos # lerpPositions) particleID s =
     (case boundPositionToWindow cfg (fst pos) (snd pos) particleID s of
        Inl e \<Rightarrow> Inl e
      | Inr ((x3, y3), s1) \<Rightarrow>
          if x3 + y3 = 0 then Inr s1
          else
            (case drawParticle cfg x3 y3 particleID s1 of
               Inl e \<Rightarrow> Inl e
             | Inr (status, s2) \<Rightarrow>
                 if status = 1 then Inr s2
                 else drawLine_loop cfg lerpPositions particleID s2))"

text \<open>
  \<^verbatim>\<open>(1 / friction) * acceleration\<close> divides two Python numbers: it raises
  \<^verbatim>\<open>ZeroDivisionError\<close> when \<open>friction = 0\<close>.
\<close>

definition drawLine :: "config \<Rightarrow> real \<Rightarrow> real \<Rightarrow> real \<Rightarrow> real \<Rightarrow> nat \<Rightarrow> state \<Rightarrow> error + state" where
  "drawLine cfg x1 y1 x2 y2 particleID s =
     (let dx = \<bar>x1 - x2\<bar>;
          dy = \<bar>y1 - y2\<bar>;
          maxDistance = max dx dy
      in if friction cfg = 0 then Inl ZeroDivisionError
         else
           let edgeMargin = (1 / friction cfg) * acceleration cfg
           in if 1 \<le> maxDistance \<and>
                 maxDistance < min (of_int (displayWidth cfg) - edgeMargin)
                                   (of_int (displayHeight cfg) - edgeMargin)
              then
                let lerpCount = nat \<lceil>maxDistance\<rceil>;
                    lerpPositions = interpolate x1 y1 x2 y2 lerpCount
                in drawLine_loop cfg lerpPositions particleID s
              else Inr s)"

subsection \<open>The main loop\<close>

text \<open>
  One pass through the body of \<^verbatim>\<open>while currentParticle < particlePositionLength\<close>,
  after its two guards, for the particle at index \<open>currentParticle\<close>. Reading and
  writing \<^verbatim>\<open>particlePositions[currentParticle]\<close> raise \<^verbatim>\<open>IndexError\<close> when the
  array has no such row; the loop's second guard excludes this for the read, not for
  the write.
\<close>

definition processParticle :: "config \<Rightarrow> nat \<Rightarrow> state \<Rightarrow> error + state" where
  "processParticle cfg currentParticle s =
     (if \<not> currentParticle < length (particlePositions s) then Inl IndexError
      else
        (case particlePositions s ! currentParticle of
           (x1, y1, vx1, vy1) \<Rightarrow>
             (case getNewParticlePosition cfg x1 y1 vx1 vy1 currentParticle of
                Inl e \<Rightarrow> Inl e
              | Inr (x2, y2, vx2, vy2) \<Rightarrow>
                  (case boundPositionToWindow cfg x2 y2 currentParticle s of
                     Inl e \<Rightarrow> Inl e
                   | Inr ((x2, y2), s1) \<Rightarrow>
                       if x2 + y2 = 0 then Inr s1
                       else if \<not> currentParticle < length (particlePositions s1) then Inl IndexError
                       else
                         let s2 = s1\<lparr>particlePositions :=
                                       (particlePositions s1)[currentParticle := (x2, y2, vx2, vy2)]\<rparr>
                         in if \<not> interpolation cfg then
                              (case drawParticle cfg x2 y2 currentParticle s2 of
                                 Inl e \<Rightarrow> Inl e
                               | Inr (status, s3) \<Rightarrow> Inr s3)
                            else drawLine cfg x1 y1 x2 y2 currentParticle s2))))"

text \<open>
  The sweep over the particles. \<open>particlePositionLength\<close> is the length read before
  the sweep; the second guard is the re-check against the current length.
\<close>

function sweep :: "config \<Rightarrow> nat \<Rightarrow> nat \<Rightarrow> state \<Rightarrow> error + state" where
  "sweep cfg particlePositionLength currentParticle s =
     (if \<not> currentParticle < particlePositionLength then Inr s
      else if currentParticle \<ge> length (particlePositions s) then Inr s
      else
        (case processParticle cfg currentParticle s of
           Inl e \<Rightarrow> Inl e
         | Inr s' \<Rightarrow> sweep cfg particlePositionLength (currentParticle + 1) s'))"
  by pat_completeness auto
termination
  by (relation "measure (\<lambda>(cfg, n, cur, s). n - cur)") auto

declare sweep.simps [simp del]

text \<open>
  One pass through the body of \<^verbatim>\<open>while running\<close>: the result carries the new value
  of \<^verbatim>\<open>running\<close>. Event polling and the rendering calls belong to the host.
\<close>

definition tick :: "config \<Rightarrow> state \<Rightarrow> error + (bool \<times> state)" where
  "tick cfg s =
     (let particlePositionLength = length (particlePositions s);
          running = (if particlePositionLength = 0 then False else True)
      in case sweep cfg particlePositionLength 0 s of
           Inl e \<Rightarrow> Inl e
         | Inr s' \<Rightarrow> Inr (running, s'))"

text \<open>
  The loop \<^verbatim>\<open>while running\<close> itself. It need not end, so the result is an option:
  \<open>None\<close> when the loop runs forever, \<open>Some (Inl e)\<close> when an exception leaves it,
  \<open>Some (Inr s)\<close> when it ends with \<^verbatim>\<open>running = False\<close> in state \<open>s\<close>.
\<close>

partial_function (option) mainLoop :: "config \<Rightarrow> state \<Rightarrow> (error + state) option" where
  "mainLoop cfg s =
     (case tick cfg s of
        Inl e \<Rightarrow> Some (Inl e)
      | Inr (running, s') \<Rightarrow> if running then mainLoop cfg s' else Some (Inr s'))"

subsection \<open>Channel range\<close>

definition colour_ok :: "colour \<Rightarrow> bool" where
  "colour_ok c =
     (case c of (r, g, b) \<Rightarrow> 0 \<le> r \<and> r \<le> 255 \<and> 0 \<le> g \<and> g \<le> 255 \<and> 0 \<le> b \<and> b \<le> 255)"

definition channels_ok :: "colour list list \<Rightarrow> bool" where
  "channels_ok buf = list_all (list_all colour_ok) buf"

text \<open>
  The shape \<^verbatim>\<open>np.zeros((displayHeight, displayWidth, 3))\<close> gives the buffer at start-up;
  no statement of the program changes it.
\<close>

definition buffer_shape :: "config \<Rightarrow> colour list list \<Rightarrow> bool" where
  "buffer_shape cfg buf =
     (length buf = nat (displayHeight cfg) \<and>
      list_all (\<lambda>row. length row = nat (displayWidth cfg)) buf)"

text \<open>
  A sequence of paint operations, each a call \<^verbatim>\<open>drawParticle(x, y, currentPos)\<close>, run
  one after the other; an exception ends the sequence.
\<close>

fun paintAll :: "config \<Rightarrow> (real \<times> real \<times> nat) list \<Rightarrow> state \<Rightarrow> error + state" where
  "paintAll cfg [] s = Inr s"
| "paintAll cfg ((x, y, currentPos) # ops) s =
     (case drawParticle cfg x y currentPos s of
        Inl e \<Rightarrow> Inl e
      | Inr (status, s') \<Rightarrow> paintAll cfg ops s')"

subsection \<open>The motion update in the words of the specification\<close>

text \<open>
  The specification's \<open>sampleAngle\<close>: a scale factor \<open>noiseScale / (dimension + 1)\<close>
  converts canvas coordinates to noise coordinates, the raw noise is mapped from
  \<open>[-1, 1]\<close> to \<open>[0, 1]\<close> and then scaled to an angle. Its \<open>advance\<close>: the four steps
  angle, acceleration vector, new velocity, new position.
\<close>

definition sampleAngle_spec :: "config \<Rightarrow> real \<Rightarrow> real \<Rightarrow> real" where
  "sampleAngle_spec cfg x y =
     (let raw = snoise2 cfg (x * (noiseScale cfg / of_int (displayWidth cfg + 1)))
                            (y * (noiseScale cfg / of_int (displayHeight cfg + 1)));
          unit = (raw + 1) / 2
      in unit * (2 * pi))"

definition advance_spec :: "config \<Rightarrow> particle \<Rightarrow> particle" where
  "advance_spec cfg p =
     (case p of (x, y, vx, vy) \<Rightarrow>
        let angle = sampleAngle_spec cfg x y;
            ax = cos angle * acceleration cfg;
            ay = sin angle * acceleration cfg;
            newVx = (vx + ax) / (1 + friction cfg);
            newVy = (vy + ay) / (1 + friction cfg)
        in (x + newVx, y + newVy, newVx, newVy))"

subsection \<open>A small configuration\<close>

text \<open>
  A \<open>10 \<times> 10\<close> canvas with the colour preset \<^verbatim>\<open>blue\<close> and a noise function that is
  constantly \<open>-1\<close>, so that the angle is \<open>0\<close> and every particle is accelerated along
  the \<open>x\<close> axis: from rest, a particle moves by \<open>(0 + 4) / (1 + 1) = 2\<close> cells in its first
  tick. The examples below vary single fields of it.
\<close>

definition demo :: config where
  "demo = \<lparr>displayWidth = 10, displayHeight = 10, points = 2, noiseScale = 5,
     pixelColourRGB = (1, 6, 24), friction = 1, acceleration = 4,
     mirrorEdgesOnContact = True, interpolation = True, snoise2 = (\<lambda>x y. - 1)\<rparr>"

section \<open>Properties\<close>

subsection \<open>Auxiliary facts\<close>

lemmas eval_defs = demo_def startup_def tick_def processParticle_def getNewParticlePosition_def
  boundPositionToWindow_def boundAxis_def deleteParticle_def drawParticle_def drawLine_def
  py_int_def np_index_def clip_def interpolate_def lerp_def Let_def

lemma clip_range: "0 \<le> clip v 0 255 \<and> clip v 0 255 \<le> 255"
  by (simp add: clip_def)

lemma list_all_update: "list_all P xs \<Longrightarrow> P v \<Longrightarrow> list_all P (xs[i := v])"
  using set_update_subset_insert [of xs i v] by (auto simp: list_all_iff)

lemma channels_ok_update:
  "channels_ok buf \<Longrightarrow> r < length buf \<Longrightarrow> colour_ok v \<Longrightarrow> channels_ok (buf[r := (buf ! r)[c := v]])"
proof -
  assume a: "channels_ok buf" and r: "r < length buf" and v: "colour_ok v"
  from a r have "list_all colour_ok (buf ! r)"
    by (simp add: channels_ok_def list_all_length)
  with v have "list_all colour_ok ((buf ! r)[c := v])"
    by (simp add: list_all_update)
  with a show ?thesis
    unfolding channels_ok_def by (simp add: list_all_update)
qed

lemma np_index_Some: "np_index n i = Some r \<Longrightarrow> r < n"
  by (auto simp: np_index_def split: if_splits)

lemma deleteParticle_Inr:
  "deleteParticle i s = Inr s' \<Longrightarrow>
     i < length (particlePositions s) \<and>
     particlePositions s' = take i (particlePositions s) @ drop (Suc i) (particlePositions s) \<and>
     length (particlePositions s') + 1 = length (particlePositions s) \<and>
     pixelColourArray s' = pixelColourArray s \<and> paintLog s' = paintLog s"
  by (auto simp: deleteParticle_def split: if_splits)

lemma boundAxis_Inr:
  "boundAxis cfg d x pid s = Inr (x', s') \<Longrightarrow>
     length (particlePositions s') \<le> length (particlePositions s) \<and>
     pixelColourArray s' = pixelColourArray s \<and> paintLog s' = paintLog s"
  by (auto simp: boundAxis_def split: if_splits sum.splits dest!: deleteParticle_Inr)

lemma boundPositionToWindow_Inr:
  "boundPositionToWindow cfg x y pid s = Inr (p, s') \<Longrightarrow>
     length (particlePositions s') \<le> length (particlePositions s) \<and>
     pixelColourArray s' = pixelColourArray s \<and> paintLog s' = paintLog s"
  by (fastforce simp: boundPositionToWindow_def split: sum.splits prod.splits dest!: boundAxis_Inr)

lemma drawParticle_Inr:
  "drawParticle cfg x y cur s = Inr (st, s') \<Longrightarrow>
     length (particlePositions s') \<le> length (particlePositions s) \<and>
     paintLog s' = paintLog s @ [(cur, py_int x, py_int y)] \<and>
     (channels_ok (pixelColourArray s) \<longrightarrow> channels_ok (pixelColourArray s'))"
  by (auto simp: drawParticle_def Let_def colour_ok_def clip_range
           split: option.splits prod.splits if_splits sum.splits
           dest!: deleteParticle_Inr np_index_Some intro!: channels_ok_update)

lemma drawLine_loop_Inr:
  "drawLine_loop cfg ps pid s = Inr s' \<Longrightarrow>
     length (particlePositions s') \<le> length (particlePositions s) \<and>
     (channels_ok (pixelColourArray s) \<longrightarrow> channels_ok (pixelColourArray s'))"
proof (induction ps arbitrary: s)
  case Nil
  then show ?case by simp
next
  case (Cons pos ps)
  from Cons.prems obtain x3 y3 s1 where
    b: "boundPositionToWindow cfg (fst pos) (snd pos) pid s = Inr ((x3, y3), s1)"
    by (auto split: sum.splits)
  note b1 = boundPositionToWindow_Inr [OF b]
  show ?case
  proof (cases "x3 + y3 = 0")
    case True
    with Cons.prems b have "s' = s1" by simp
    with b1 show ?thesis by simp
  next
    case False
    with Cons.prems b obtain status s2 where
      d: "drawParticle cfg x3 y3 pid s1 = Inr (status, s2)"
      by (auto split: sum.splits)
    note d1 = drawParticle_Inr [OF d]
    show ?thesis
    proof (cases "status = 1")
      case True
      with Cons.prems b d False have "s' = s2" by simp
      with b1 d1 show ?thesis by simp
    next
      case st: False
      with Cons.prems b d False have "drawLine_loop cfg ps pid s2 = Inr s'" by simp
      from Cons.IH [OF this] b1 d1 show ?thesis by simp
    qed
  qed
qed

lemma drawLine_Inr:
  "drawLine cfg x1 y1 x2 y2 pid s = Inr s' \<Longrightarrow>
     length (particlePositions s') \<le> length (particlePositions s) \<and>
     (channels_ok (pixelColourArray s) \<longrightarrow> channels_ok (pixelColourArray s'))"
  by (auto simp: drawLine_def Let_def split: if_splits dest!: drawLine_loop_Inr)

lemma processParticle_Inr:
  assumes "processParticle cfg cur s = Inr s'"
  shows "length (particlePositions s') \<le> length (particlePositions s) \<and>
     (channels_ok (pixelColourArray s) \<longrightarrow> channels_ok (pixelColourArray s'))"
proof -
  from assms have c: "cur < length (particlePositions s)"
    by (auto simp: processParticle_def split: if_splits)
  obtain x1 y1 vx1 vy1 where p: "particlePositions s ! cur = (x1, y1, vx1, vy1)"
    by (cases "particlePositions s ! cur") auto
  from assms c p obtain x2 y2 vx2 vy2 where
    g: "getNewParticlePosition cfg x1 y1 vx1 vy1 cur = Inr (x2, y2, vx2, vy2)"
    by (auto simp: processParticle_def split: sum.splits)
  from assms c p g obtain bx "by" s1 where
    b: "boundPositionToWindow cfg x2 y2 cur s = Inr ((bx, by), s1)"
    by (auto simp: processParticle_def split: sum.splits)
  note b1 = boundPositionToWindow_Inr [OF b]
  show ?thesis
  proof (cases "bx + by = 0")
    case True
    with assms c p g b have "s' = s1" by (simp add: processParticle_def)
    with b1 show ?thesis by simp
  next
    case False
    define s2 where "s2 = s1\<lparr>particlePositions := (particlePositions s1)[cur := (bx, by, vx2, vy2)]\<rparr>"
    have s2: "length (particlePositions s2) = length (particlePositions s1)"
      "pixelColourArray s2 = pixelColourArray s1"
      by (simp_all add: s2_def)
    from assms c p g b False have
      r: "(if \<not> interpolation cfg then
            (case drawParticle cfg bx by cur s2 of Inl e \<Rightarrow> Inl e | Inr (status, s3) \<Rightarrow> Inr s3)
          else drawLine cfg x1 y1 bx by cur s2) = Inr s'"
      by (simp add: processParticle_def s2_def Let_def split: if_splits)
    show ?thesis
    proof (cases "interpolation cfg")
      case True
      with r have "drawLine cfg x1 y1 bx by cur s2 = Inr s'" by simp
      from drawLine_Inr [OF this] b1 s2 show ?thesis by simp
    next
      case ni: False
      with r obtain status where "drawParticle cfg bx by cur s2 = Inr (status, s')"
        by (auto split: sum.splits)
      from drawParticle_Inr [OF this] b1 s2 show ?thesis by simp
    qed
  qed
qed

lemma sweep_Inr:
  "sweep cfg n cur s = Inr s' \<Longrightarrow>
     length (particlePositions s') \<le> length (particlePositions s) \<and>
     (channels_ok (pixelColourArray s) \<longrightarrow> channels_ok (pixelColourArray s'))"
proof (induction cfg n cur s rule: sweep.induct)
  case (1 cfg n cur s)
  show ?case
  proof (cases "cur < n \<and> cur < length (particlePositions s)")
    case False
    with "1.prems" have "s' = s" by (subst (asm) sweep.simps) (auto split: if_splits)
    then show ?thesis by simp
  next
    case True
    with "1.prems" obtain s1 where
      p: "processParticle cfg cur s = Inr s1" and r: "sweep cfg n (cur + 1) s1 = Inr s'"
      by (subst (asm) sweep.simps) (auto split: sum.splits)
    from True p have "length (particlePositions s') \<le> length (particlePositions s1) \<and>
       (channels_ok (pixelColourArray s1) \<longrightarrow> channels_ok (pixelColourArray s'))"
      using "1.IH" [of s1] r by simp
    with processParticle_Inr [OF p] show ?thesis by simp
  qed
qed

lemma tick_Inr:
  "tick cfg s = Inr (running, s') \<Longrightarrow>
     length (particlePositions s') \<le> length (particlePositions s) \<and>
     (channels_ok (pixelColourArray s) \<longrightarrow> channels_ok (pixelColourArray s')) \<and>
     (running \<longleftrightarrow> particlePositions s \<noteq> [])"
  by (auto simp: tick_def Let_def split: sum.splits dest!: sweep_Inr)

lemma tick_empty: "particlePositions s = [] \<Longrightarrow> tick cfg s = Inr (False, s)"
  by (simp add: tick_def sweep.simps)

lemma mainLoop_final:
  assumes "mainLoop cfg s = Some r"
  shows "\<forall>s'. r = Inr s' \<longrightarrow> particlePositions s' = []"
proof (rule mainLoop.raw_induct [where P = "\<lambda>cfg s r. \<forall>s'. r = Inr s' \<longrightarrow> particlePositions s' = []", OF _ assms])
  fix f :: "config \<Rightarrow> state \<Rightarrow> (error + state) option" and cfg s r
  assume IH: "\<And>c t y. f c t = Some y \<Longrightarrow> \<forall>s'. y = Inr s' \<longrightarrow> particlePositions s' = []"
    and eq: "(case tick cfg s of Inl e \<Rightarrow> Some (Inl e)
              | Inr (running, s') \<Rightarrow> if running then f cfg s' else Some (Inr s')) = Some r"
  show "\<forall>s'. r = Inr s' \<longrightarrow> particlePositions s' = []"
  proof (cases "tick cfg s")
    case (Inl e)
    with eq show ?thesis by auto
  next
    case (Inr p)
    obtain running s1 where p: "p = (running, s1)" by (cases p)
    show ?thesis
    proof (cases running)
      case True
      with eq Inr p have "f cfg s1 = Some r" by simp
      from IH [OF this] show ?thesis .
    next
      case False
      from tick_Inr [of cfg s running s1] Inr p False have e: "particlePositions s = []" by simp
      from tick_empty [OF e, of cfg] Inr p have "s1 = s" by simp
      with eq Inr p False e show ?thesis by auto
    qed
  qed
qed

subsection \<open>C1: leaving the canvas in delete mode\<close>

text \<open>
  C1. In delete mode (\<^verbatim>\<open>mirrorEdgesOnContact = False\<close>), a particle whose new position
  has a coordinate outside \<open>[0, dimension)\<close> is to reduce the live count by exactly one,
  and no cell is to be painted for it in that event.

  The program does not do this. Two particles start at \<open>(9, 5)\<close> and \<open>(3, 3)\<close> on the
  \<open>10 \<times> 10\<close> canvas, interpolation off. The first moves to \<open>x = 11\<close> and is deleted, and
  its \<open>x\<close> becomes \<open>0\<close>; its \<open>y = 5\<close> is in range, so \<^verbatim>\<open>x2 + y2 == 0\<close> is false, the
  row \<open>(0, 5, 2, 0)\<close> is written over the other particle, which now has index \<open>0\<close>, and
  cell \<open>(0, 5)\<close> is painted. When both coordinates are out of range (a start at
  \<open>(9, 10)\<close>), \<^verbatim>\<open>deleteParticle\<close> runs once per axis and two particles are removed.
\<close>

theorem delete_mode_paints_and_deletes_twice:
  "tick (demo\<lparr>mirrorEdgesOnContact := False, interpolation := False\<rparr>)
        (startup demo [(9, 5), (3, 3)]) =
     Inr (True,
       \<lparr>particlePositions = [(0, 5, 2, 0)],
        pixelColourArray =
          (replicate 10 (replicate 10 (0, 0, 0)))[5 := (replicate 10 (0, 0, 0))[0 := (1, 6, 24)]],
        paintLog = [(0, 0, 5)]\<rparr>) \<and>
   tick (demo\<lparr>mirrorEdgesOnContact := False, interpolation := False\<rparr>)
        (startup demo [(9, 10), (3, 3), (4, 4)]) =
     Inr (True,
       \<lparr>particlePositions = [(4, 4, 0, 0)],
        pixelColourArray = replicate 10 (replicate 10 (0, 0, 0)),
        paintLog = []\<rparr>)"
  by (simp add: eval_defs sweep.simps)

subsection \<open>C3: deletion during the sweep\<close>

text \<open>
  C3. During one tick's sweep every particle that is live at the start of the tick
  and is not itself deleted is to be processed exactly once; a deletion in mid-sweep
  is never to make another particle be skipped.

  The program skips. With the colour increment \<open>(255, 255, 255)\<close> every paint
  saturates its cell. Three particles start at \<open>(1, 1)\<close>, \<open>(3, 3)\<close> and \<open>(5, 5)\<close>,
  interpolation off. The first dies at index \<open>0\<close>; the second moves down to index \<open>0\<close>
  while \<^verbatim>\<open>currentParticle\<close> goes on to \<open>1\<close>, where the third is processed and dies.
  The second particle is neither moved nor painted in this tick: it still is
  \<open>(3, 3, 0, 0)\<close>, and the only calls of \<^verbatim>\<open>drawParticle\<close> are those for the other two.
\<close>

theorem deletion_skips_next_particle:
  "tick (demo\<lparr>pixelColourRGB := (255, 255, 255), interpolation := False\<rparr>)
        (startup demo [(1, 1), (3, 3), (5, 5)]) =
     Inr (True,
       \<lparr>particlePositions = [(3, 3, 0, 0)],
        pixelColourArray = replicate 10 (replicate 10 (0, 0, 0)),
        paintLog = [(0, 3, 1), (1, 7, 5)]\<rparr>)"
  by (simp add: eval_defs sweep.simps)

subsection \<open>C6: zero friction\<close>

text \<open>
  C6. With \<open>friction = 0\<close> the edge-margin computation of the rasterizer is to be
  special-cased, so that rasterizing is total.

  The program has no such case: \<^verbatim>\<open>drawLine\<close> evaluates \<^verbatim>\<open>1 / friction\<close> before
  anything else. With \<open>friction = 0\<close> and interpolation on, the first tick of one
  particle ends in \<^verbatim>\<open>ZeroDivisionError\<close>.
\<close>

theorem zero_friction_raises:
  "drawLine (demo\<lparr>friction := 0\<rparr>) 1 1 5 1 0 (startup demo [(1, 1)]) = Inl ZeroDivisionError \<and>
   tick (demo\<lparr>friction := 0\<rparr>) (startup demo [(1, 1)]) = Inl ZeroDivisionError"
  by (simp add: eval_defs sweep.simps)

subsection \<open>C9: positions at start-up\<close>

text \<open>
  C9. Every particle position read for rasterization is to lie in
  \<open>[0, width) \<times> [0, height)\<close>; in particular each start-up particle is to be created at
  an integer position inside that range, with zero velocity.

  \<^verbatim>\<open>randint(0, displayWidth)\<close> includes its upper end. On the \<open>10 \<times> 10\<close> canvas the
  draw \<open>(10, 4)\<close> is one it can return, and the particle it creates has \<open>x = 10\<close>, which
  is not below the width.
\<close>

theorem startup_position_on_the_edge:
  "valid_draws (demo\<lparr>points := 1\<rparr>) [(10, 4)] \<and>
   particlePositions (startup (demo\<lparr>points := 1\<rparr>) [(10, 4)]) = [(10, 4, 0, 0)] \<and>
   \<not> (10 :: real) < of_int (displayWidth (demo\<lparr>points := 1\<rparr>))"
  by (simp add: demo_def valid_draws_def randint_def startup_def)

subsection \<open>C8: the population never grows, and the loop ends when it is empty\<close>

text \<open>
  C8. The live particle count does not increase from one tick to the next, and the
  simulation loop halts if and only if the count reaches \<open>0\<close>.

  A tick that returns leaves at most as many particles as it found, and it leaves
  \<^verbatim>\<open>running\<close> true exactly when it found at least one. If the loop ends with
  \<^verbatim>\<open>running = False\<close>, no particle is left; and started with no particle, it ends
  after that tick.
\<close>

theorem population_non_increasing_and_halting:
  "(tick cfg s = Inr (running, s') \<longrightarrow>
      length (particlePositions s') \<le> length (particlePositions s) \<and>
      (running \<longleftrightarrow> particlePositions s \<noteq> [])) \<and>
   (mainLoop cfg s = Some (Inr s'') \<longrightarrow> particlePositions s'' = []) \<and>
   (particlePositions s = [] \<longrightarrow> mainLoop cfg s = Some (Inr s))"
proof (intro conjI impI)
  assume t: "tick cfg s = Inr (running, s')"
  from tick_Inr [OF t] show "length (particlePositions s') \<le> length (particlePositions s)"
    by simp
  from tick_Inr [OF t] show "running \<longleftrightarrow> particlePositions s \<noteq> []"
    by simp
next
  assume "mainLoop cfg s = Some (Inr s'')"
  from mainLoop_final [OF this] show "particlePositions s'' = []"
    by simp
next
  assume "particlePositions s = []"
  from tick_empty [OF this, of cfg] show "mainLoop cfg s = Some (Inr s)"
    by (subst mainLoop.simps) simp
qed

text \<open>
  One particle with the saturating increment: it dies in the first tick, which
  leaves \<^verbatim>\<open>running\<close> true, and the second tick ends the loop.
\<close>

theorem population_non_increasing_and_halting_witness:
  "tick (demo\<lparr>pixelColourRGB := (255, 255, 255), interpolation := False\<rparr>) (startup demo [(1, 1)]) =
     Inr (True, \<lparr>particlePositions = [],
                 pixelColourArray = replicate 10 (replicate 10 (0, 0, 0)),
                 paintLog = [(0, 3, 1)]\<rparr>) \<and>
   length (particlePositions \<lparr>particlePositions = [],
                 pixelColourArray = replicate 10 (replicate 10 (0, 0, 0)),
                 paintLog = [(0, 3, 1)]\<rparr>) \<le> length (particlePositions (startup demo [(1, 1)])) \<and>
   mainLoop (demo\<lparr>pixelColourRGB := (255, 255, 255), interpolation := False\<rparr>) (startup demo [(1, 1)]) =
     Some (Inr \<lparr>particlePositions = [],
                 pixelColourArray = replicate 10 (replicate 10 (0, 0, 0)),
                 paintLog = [(0, 3, 1)]\<rparr>)"
proof -
  let ?cfg = "demo\<lparr>pixelColourRGB := (255, 255, 255), interpolation := False\<rparr>"
  let ?s1 = "\<lparr>particlePositions = [], pixelColourArray = replicate 10 (replicate 10 (0, 0, 0)),
              paintLog = [(0, 3, 1)]\<rparr>"
  have t: "tick ?cfg (startup demo [(1, 1)]) = Inr (True, ?s1)"
    by (simp add: eval_defs sweep.simps)
  have e: "particlePositions ?s1 = []"
    by simp
  from population_non_increasing_and_halting [of ?cfg ?s1 False ?s1 ?s1] e
  have m: "mainLoop ?cfg ?s1 = Some (Inr ?s1)"
    by blast
  have "mainLoop ?cfg (startup demo [(1, 1)]) = Some (Inr ?s1)"
    by (subst mainLoop.simps) (simp only: t m sum.case prod.case if_True)
  with t population_non_increasing_and_halting [of ?cfg "startup demo [(1, 1)]" True ?s1 ?s1]
  show ?thesis
    by blast
qed

subsection \<open>C7: wrapping\<close>

text \<open>Away from the edge the remainder wraps as expected.\<close>

lemma py_mod_ordinary:
  "py_mod 12 10 = 2 \<and> py_mod (- 3) 10 = 7 \<and> py_mod (- (3 / 4)) 10 = 37 / 4 \<and> py_mod 20 10 = 0"
  by (simp add: py_mod_def fmod_def float64_def round_half_even_def pow2_def exponent2_def
        bit_length.simps Let_def)

lemma tiny_fmod: "fmod (- (1 / 2 ^ 51)) 10 = - (1 / 2 ^ 51)"
  by (simp add: fmod_def ceiling_eq_iff)

lemma tiny_exponent: "exponent2 (10 - 1 / 2 ^ 51) = 3"
  by (simp add: exponent2_def bit_length.simps floor_eq_iff)

lemma tiny_round: "round_half_even ((10 - 1 / 2 ^ 51) / (1 / 2 ^ 49)) = 10 * 2 ^ 49"
  by (simp add: round_half_even_def Let_def)

lemma tiny_float64: "float64 (10 - 1 / 2 ^ 51) = 10"
proof -
  have a: "\<bar>10 - 1 / 2 ^ 51 :: real\<bar> = 10 - 1 / 2 ^ 51"
    by simp
  have p: "pow2 (3 - 52) = 1 / 2 ^ 49"
    by (simp add: pow2_def)
  have n: "(10 - 1 / 2 ^ 51 :: real) \<noteq> 0"
    by simp
  show ?thesis
    unfolding float64_def Let_def a tiny_exponent p tiny_round
    using n by simp
qed

lemma py_mod_tiny_negative: "py_mod (- (1 / 2 ^ 51)) 10 = 10"
proof -
  have "py_mod (- (1 / 2 ^ 51)) 10 = float64 (- (1 / 2 ^ 51) + 10)"
    unfolding py_mod_def Let_def of_int_numeral tiny_fmod by simp
  also have "- (1 / 2 ^ 51) + 10 = (10 - 1 / 2 ^ 51 :: real)"
    by simp
  finally show ?thesis
    by (simp only: tiny_float64)
qed

text \<open>
  C7. In wrap mode (\<^verbatim>\<open>mirrorEdgesOnContact = True\<close>), for every coordinate \<open>p\<close> and
  canvas dimension \<open>d\<close> the boundary clamp is to return a coordinate in \<open>[0, d)\<close>, and the
  clamp of \<open>p + k \<cdot> d\<close> is to be the clamp of \<open>p\<close> for every integer \<open>k\<close>.

  The program misses the range for a coordinate just below zero. On the \<open>10 \<times> 10\<close>
  canvas the remainder of \<open>- 1 / 2 ^ 51\<close> is that number, the result of \<open>fmod\<close>, plus
  \<open>10\<close>, and in \<^verbatim>\<open>float64\<close> that sum rounds to \<open>10\<close>: the clamp returns the width
  itself. A particle at \<open>(0, 5)\<close> with velocity \<open>- (4 + 1 / 2 ^ 50)\<close> along \<open>x\<close> gets this new
  coordinate, by operations that are exact in \<^verbatim>\<open>float64\<close>; with interpolation off it
  is then painted at column \<open>10\<close>, which raises \<^verbatim>\<open>IndexError\<close>.
\<close>

theorem wrap_returns_the_width:
  "boundPositionToWindow demo (- (1 / 2 ^ 51)) 5 0 (startup demo [(0, 5)]) =
     Inr ((10, 5), startup demo [(0, 5)]) \<and>
   \<not> (10 :: real) < of_int (displayWidth demo) \<and>
   tick (demo\<lparr>interpolation := False\<rparr>)
        \<lparr>particlePositions = [(0, 5, - (4 + 1 / 2 ^ 50), 0)],
         pixelColourArray = replicate 10 (replicate 10 (0, 0, 0)),
         paintLog = []\<rparr> = Inl IndexError"
proof -
  let ?cfg = "demo\<lparr>interpolation := False\<rparr>"
  let ?s = "\<lparr>particlePositions = [(0, 5, - (4 + 1 / 2 ^ 50), 0)],
         pixelColourArray = replicate 10 (replicate 10 (0, 0, 0)),
         paintLog = []\<rparr>"
  have b: "boundPositionToWindow cfg (- (1 / 2 ^ 51)) 5 0 s = Inr ((10, 5), s)"
    if "mirrorEdgesOnContact cfg" and "displayWidth cfg = 10" and "displayHeight cfg = 10"
    for cfg s
    using that py_mod_tiny_negative
    by (simp add: boundPositionToWindow_def boundAxis_def)
  have g: "getNewParticlePosition ?cfg 0 5 (- (4 + 1 / 2 ^ 50)) 0 0 =
             Inr (- (1 / 2 ^ 51), 5, - (1 / 2 ^ 51), 0)"
    by (simp add: getNewParticlePosition_def demo_def Let_def)
  have p: "processParticle ?cfg 0 ?s = Inl IndexError"
    using g b [of ?cfg ?s]
    by (simp add: processParticle_def demo_def drawParticle_def py_int_def np_index_def)
  have "tick ?cfg ?s = Inl IndexError"
    using p by (simp add: tick_def sweep.simps)
  moreover have "boundPositionToWindow demo (- (1 / 2 ^ 51)) 5 0 (startup demo [(0, 5)]) =
     Inr ((10, 5), startup demo [(0, 5)])"
    by (rule b) (simp_all add: demo_def)
  ultimately show ?thesis
    by (simp add: demo_def)
qed

subsection \<open>C5: the motion update\<close>

text \<open>
  C5. For every particle state \<open>(x, y, vx, vy)\<close> the motion update returns exactly:
  the angle sampled from the noise field at \<open>(x, y)\<close>; the acceleration vector
  \<open>(cos angle \<cdot> acceleration, sin angle \<cdot> acceleration)\<close>; the new velocity
  \<open>(old velocity + acceleration vector) / (1 + friction)\<close>; the new position
  \<open>old position + new velocity\<close>; and nothing else.

  \<^verbatim>\<open>getNewParticlePosition\<close> computes what the specification's \<open>advance\<close> describes,
  wherever its divisors \<open>displayWidth + 1\<close>, \<open>displayHeight + 1\<close> and \<open>friction + 1\<close>
  are not zero. It takes and returns no state. The arithmetic is exact.
\<close>

theorem motion_update_is_advance:
  assumes "displayWidth cfg + 1 \<noteq> 0" and "displayHeight cfg + 1 \<noteq> 0"
    and "friction cfg + 1 \<noteq> 0"
  shows "getNewParticlePosition cfg x y vx vy particleID = Inr (advance_spec cfg (x, y, vx, vy))"
  using assms
  by (simp add: getNewParticlePosition_def advance_spec_def sampleAngle_spec_def Let_def
        add.commute mult.commute)

text \<open>From rest at \<open>(1, 1)\<close>, the angle is \<open>0\<close> and the particle moves to \<open>(3, 1)\<close>.\<close>

theorem motion_update_is_advance_witness:
  "displayWidth demo + 1 \<noteq> 0 \<and> displayHeight demo + 1 \<noteq> 0 \<and> friction demo + 1 \<noteq> 0 \<and>
   getNewParticlePosition demo 1 1 0 0 0 = Inr (advance_spec demo (1, 1, 0, 0)) \<and>
   advance_spec demo (1, 1, 0, 0) = (3, 1, 2, 0)"
proof -
  have h: "displayWidth demo + 1 \<noteq> 0" "displayHeight demo + 1 \<noteq> 0" "friction demo + 1 \<noteq> 0"
    by (simp_all add: demo_def)
  have "advance_spec demo (1, 1, 0, 0) = (3, 1, 2, 0)"
    by (simp add: advance_spec_def sampleAngle_spec_def demo_def)
  with motion_update_is_advance [OF h, of 1 1 0 0 0] h show ?thesis
    by simp
qed

subsection \<open>C4: channels stay in range\<close>

lemma channels_ok_startup: "channels_ok (pixelColourArray (startup cfg draws))"
  by (simp add: startup_def channels_ok_def list_all_iff colour_ok_def)

lemma paintAll_channels_ok:
  "channels_ok (pixelColourArray s) \<Longrightarrow> paintAll cfg ops s = Inr s' \<Longrightarrow>
     channels_ok (pixelColourArray s')"
proof (induction ops arbitrary: s)
  case Nil
  then show ?case by simp
next
  case (Cons op ops)
  obtain x y currentPos where op: "op = (x, y, currentPos)"
    by (cases op)
  from Cons.prems(2) op obtain status s1 where
    d: "drawParticle cfg x y currentPos s = Inr (status, s1)" and
    r: "paintAll cfg ops s1 = Inr s'"
    by (auto split: sum.splits)
  from drawParticle_Inr [OF d] Cons.prems(1) have "channels_ok (pixelColourArray s1)"
    by simp
  from Cons.IH [OF this r] show ?case .
qed

text \<open>
  C4. For every reachable state of the accumulation buffer and every sequence of
  paint operations, each of the three channels of every cell stays within
  \<open>[0, 255]\<close> at all times.

  The buffer is all zero at start-up. From a buffer whose channels are in range,
  any sequence of \<^verbatim>\<open>drawParticle\<close> calls that returns, and any tick that returns,
  gives a buffer whose channels are in range. Every prefix of a sequence is a
  sequence, so this holds after each single paint.
\<close>

theorem channels_stay_in_range:
  "channels_ok (pixelColourArray (startup cfg draws)) \<and>
   (channels_ok (pixelColourArray s) \<longrightarrow> paintAll cfg ops s = Inr s' \<longrightarrow>
      channels_ok (pixelColourArray s')) \<and>
   (channels_ok (pixelColourArray s) \<longrightarrow> tick cfg s = Inr (running, s'') \<longrightarrow>
      channels_ok (pixelColourArray s''))"
proof (intro conjI impI)
  show "channels_ok (pixelColourArray (startup cfg draws))"
    by (rule channels_ok_startup)
next
  assume "channels_ok (pixelColourArray s)" and "paintAll cfg ops s = Inr s'"
  then show "channels_ok (pixelColourArray s')"
    by (rule paintAll_channels_ok)
next
  assume "channels_ok (pixelColourArray s)" and "tick cfg s = Inr (running, s'')"
  with tick_Inr [of cfg s running s''] show "channels_ok (pixelColourArray s'')"
    by simp
qed

text \<open>
  Two paints of \<open>(100, 200, 250)\<close> on cell \<open>(1, 1)\<close>: the second clamps two of the
  three channels.
\<close>

theorem channels_stay_in_range_witness:
  "channels_ok (pixelColourArray (startup demo [(1, 1)])) \<and>
   paintAll (demo\<lparr>pixelColourRGB := (100, 200, 250)\<rparr>) [(1, 1, 0), (1, 1, 0)] (startup demo [(1, 1)]) =
     Inr \<lparr>particlePositions = [(1, 1, 0, 0)],
          pixelColourArray =
            (replicate 10 (replicate 10 (0, 0, 0)))[1 := (replicate 10 (0, 0, 0))[1 := (200, 255, 255)]],
          paintLog = [(0, 1, 1), (0, 1, 1)]\<rparr> \<and>
   channels_ok
     ((replicate 10 (replicate 10 (0, 0, 0)))[1 := (replicate 10 (0, 0, 0))[1 := (200, 255, 255)]])"
proof -
  let ?cfg = "demo\<lparr>pixelColourRGB := (100, 200, 250)\<rparr>"
  let ?s1 = "\<lparr>particlePositions = [(1, 1, 0, 0)],
          pixelColourArray =
            (replicate 10 (replicate 10 (0, 0, 0)))[1 := (replicate 10 (0, 0, 0))[1 := (200, 255, 255)]],
          paintLog = [(0, 1, 1), (0, 1, 1)]\<rparr>"
  have p: "paintAll ?cfg [(1, 1, 0), (1, 1, 0)] (startup demo [(1, 1)]) = Inr ?s1"
    by (simp add: eval_defs)
  have c: "channels_ok (pixelColourArray (startup demo [(1, 1)]))"
    by (rule channels_ok_startup)
  from channels_stay_in_range [of ?cfg "[(1, 1)]" "startup demo [(1, 1)]"
      "[(1, 1, 0), (1, 1, 0)]" ?s1 True ?s1] p c
  show ?thesis
    by simp
qed

subsection \<open>C2: painting and death by saturation\<close>

lemma drawParticle_unfold:
  assumes "np_index (length (pixelColourArray s)) (py_int y) = Some r"
    and "np_index (length (pixelColourArray s ! r)) (py_int x) = Some c"
    and "pixelColourArray s ! r ! c = (pr, pg, pb)"
    and "pixelColourRGB cfg = (ir, ig, ib)"
  shows "drawParticle cfg x y currentPos s =
     (if (clip (pr + ir) 0 255, clip (pg + ig) 0 255, clip (pb + ib) 0 255) = (255, 255, 255)
      then (case deleteParticle currentPos (s\<lparr>paintLog := paintLog s @ [(currentPos, py_int x, py_int y)]\<rparr>) of
              Inl e \<Rightarrow> Inl e
            | Inr s' \<Rightarrow> Inr (1, s'))
      else Inr (0, s\<lparr>paintLog := paintLog s @ [(currentPos, py_int x, py_int y)],
                      pixelColourArray := (pixelColourArray s)
                        [r := (pixelColourArray s ! r)
                           [c := (clip (pr + ir) 0 255, clip (pg + ig) 0 255, clip (pb + ib) 0 255)]]\<rparr>))"
  using assms by (simp add: drawParticle_def Let_def)

lemma drawLine_loop_died:
  assumes "boundPositionToWindow cfg (fst pos) (snd pos) particleID s0 = Inr ((x, y), s)"
    and "x + y \<noteq> 0"
    and "drawParticle cfg x y particleID s = Inr (1, s')"
  shows "drawLine_loop cfg (pos # lerpPositions) particleID s0 = Inr s'"
  using assms by simp

text \<open>
  C2. Every call \<open>paint(x, y, particleId)\<close> on a live particle is to add the colour
  increment to the cell at \<open>(x, y)\<close>, each channel clamped to \<open>255\<close>; if all three
  clamped channels equal \<open>255\<close> the call reports \<open>died\<close>, the particle is removed and
  no further paint occurs for it in that tick; otherwise it reports \<open>continue\<close>.

  As stated this fails: the call that completes saturation stores nothing. With the
  increment \<open>(255, 255, 255)\<close>, painting the zero cell \<open>(3, 1)\<close> reports \<open>died\<close> and
  removes the particle, and the cell is still \<open>(0, 0, 0)\<close>, not the clamped sum
  \<open>(255, 255, 255)\<close>.
\<close>

theorem saturating_paint_stores_nothing:
  "drawParticle (demo\<lparr>pixelColourRGB := (255, 255, 255)\<rparr>) 3 1 0 (startup demo [(1, 1)]) =
     Inr (1, \<lparr>particlePositions = [],
              pixelColourArray = replicate 10 (replicate 10 (0, 0, 0)),
              paintLog = [(0, 3, 1)]\<rparr>) \<and>
   replicate 10 (replicate 10 (0, 0, 0)) ! 1 ! 3 = ((0, 0, 0) :: colour) \<and>
   (clip (0 + 255) 0 255, clip (0 + 255) 0 255, clip (0 + 255) 0 255) = (255, 255, 255) \<and>
   ((0, 0, 0) :: colour) \<noteq> (255, 255, 255)"
  by (simp add: eval_defs)

text \<open>
  C2, amended. For a call \<^verbatim>\<open>drawParticle(x, y, currentPos)\<close> on a cell inside the
  buffer and a particle index inside the live collection, let \<open>newColor\<close> be the sum of
  the cell and the colour increment with each channel clamped to \<open>[0, 255]\<close>. If
  \<open>newColor\<close> is \<open>(255, 255, 255)\<close>, the call reports \<open>died\<close> (\<open>1\<close>), removes the row at
  that index from the live collection and leaves the cell as it was. Otherwise it
  stores \<open>newColor\<close> in the cell, changes nothing else and reports \<open>continue\<close> (\<open>0\<close>).
  In the loop of \<^verbatim>\<open>drawLine\<close>, a paint that reports \<open>died\<close> ends the loop: the samples
  after it are not painted.
\<close>

theorem paint_saturation_rule:
  assumes "np_index (length (pixelColourArray s)) (py_int y) = Some r"
    and "np_index (length (pixelColourArray s ! r)) (py_int x) = Some c"
    and "pixelColourArray s ! r ! c = (pr, pg, pb)"
    and "pixelColourRGB cfg = (ir, ig, ib)"
    and "currentPos < length (particlePositions s)"
    and "newColor = (clip (pr + ir) 0 255, clip (pg + ig) 0 255, clip (pb + ib) 0 255)"
  shows "(newColor = (255, 255, 255) \<longrightarrow>
            drawParticle cfg x y currentPos s =
              Inr (1, s\<lparr>paintLog := paintLog s @ [(currentPos, py_int x, py_int y)],
                        particlePositions := take currentPos (particlePositions s) @
                                             drop (Suc currentPos) (particlePositions s)\<rparr>) \<and>
            (\<forall>pos lerpPositions s0.
               boundPositionToWindow cfg (fst pos) (snd pos) currentPos s0 = Inr ((x, y), s) \<longrightarrow>
               x + y \<noteq> 0 \<longrightarrow>
               drawLine_loop cfg (pos # lerpPositions) currentPos s0 =
                 Inr (s\<lparr>paintLog := paintLog s @ [(currentPos, py_int x, py_int y)],
                        particlePositions := take currentPos (particlePositions s) @
                                             drop (Suc currentPos) (particlePositions s)\<rparr>))) \<and>
         (newColor \<noteq> (255, 255, 255) \<longrightarrow>
            drawParticle cfg x y currentPos s =
              Inr (0, s\<lparr>paintLog := paintLog s @ [(currentPos, py_int x, py_int y)],
                        pixelColourArray := (pixelColourArray s)
                          [r := (pixelColourArray s ! r)[c := newColor]]\<rparr>))"
proof (intro conjI impI allI)
  assume sat: "newColor = (255, 255, 255)"
  with assms show d: "drawParticle cfg x y currentPos s =
      Inr (1, s\<lparr>paintLog := paintLog s @ [(currentPos, py_int x, py_int y)],
                particlePositions := take currentPos (particlePositions s) @
                                     drop (Suc currentPos) (particlePositions s)\<rparr>)"
    by (simp add: drawParticle_unfold [OF assms(1-4)] deleteParticle_def)
  fix pos lerpPositions s0
  assume "boundPositionToWindow cfg (fst pos) (snd pos) currentPos s0 = Inr ((x, y), s)"
    and "x + y \<noteq> 0"
  from drawLine_loop_died [OF this d]
  show "drawLine_loop cfg (pos # lerpPositions) currentPos s0 =
      Inr (s\<lparr>paintLog := paintLog s @ [(currentPos, py_int x, py_int y)],
             particlePositions := take currentPos (particlePositions s) @
                                  drop (Suc currentPos) (particlePositions s)\<rparr>)" .
next
  assume "newColor \<noteq> (255, 255, 255)"
  then have nc: "(clip (pr + ir) 0 255, clip (pg + ig) 0 255, clip (pb + ib) 0 255) \<noteq> (255, 255, 255)"
    unfolding assms(6) .
  show "drawParticle cfg x y currentPos s =
      Inr (0, s\<lparr>paintLog := paintLog s @ [(currentPos, py_int x, py_int y)],
                pixelColourArray := (pixelColourArray s)
                  [r := (pixelColourArray s ! r)[c := newColor]]\<rparr>)"
    unfolding assms(6) drawParticle_unfold [OF assms(1-4)]
    by (simp only: nc if_False)
qed

text \<open>
  With the increment \<open>(255, 255, 255)\<close> the paint at \<open>(3, 1)\<close> reports \<open>died\<close>, and a
  line of two samples stops after the first; with \<^verbatim>\<open>blue\<close> the same paint stores
  \<open>(1, 6, 24)\<close> and reports \<open>continue\<close>.
\<close>

theorem paint_saturation_rule_witness:
  "drawParticle (demo\<lparr>pixelColourRGB := (255, 255, 255)\<rparr>) 3 1 0 (startup demo [(1, 1)]) =
     Inr (1, \<lparr>particlePositions = [],
              pixelColourArray = replicate 10 (replicate 10 (0, 0, 0)),
              paintLog = [(0, 3, 1)]\<rparr>) \<and>
   drawLine_loop (demo\<lparr>pixelColourRGB := (255, 255, 255)\<rparr>) [(3, 1), (4, 1)] 0 (startup demo [(1, 1)]) =
     Inr \<lparr>particlePositions = [],
          pixelColourArray = replicate 10 (replicate 10 (0, 0, 0)),
          paintLog = [(0, 3, 1)]\<rparr> \<and>
   drawParticle demo 3 1 0 (startup demo [(1, 1)]) =
     Inr (0, \<lparr>particlePositions = [(1, 1, 0, 0)],
              pixelColourArray =
                (replicate 10 (replicate 10 (0, 0, 0)))[1 := (replicate 10 (0, 0, 0))[3 := (1, 6, 24)]],
              paintLog = [(0, 3, 1)]\<rparr>)"
proof -
  let ?sat = "demo\<lparr>pixelColourRGB := (255, 255, 255)\<rparr>"
  let ?s = "startup demo [(1, 1)]"
  have r: "np_index (length (pixelColourArray ?s)) (py_int 1) = Some 1"
    and c: "np_index (length (pixelColourArray ?s ! 1)) (py_int 3) = Some 3"
    and p: "pixelColourArray ?s ! 1 ! 3 = (0, 0, 0)"
    and l: "0 < length (particlePositions ?s)"
    by (simp_all add: eval_defs)
  have i1: "pixelColourRGB ?sat = (255, 255, 255)" and i2: "pixelColourRGB demo = (1, 6, 24)"
    by (simp_all add: demo_def)
  have b: "boundPositionToWindow ?sat (fst (3, 1)) (snd (3, 1)) 0 ?s = Inr ((3, 1), ?s)"
    by (simp add: eval_defs)
  from paint_saturation_rule [OF r c p i1 l refl] b
  have "drawParticle ?sat 3 1 0 ?s =
          Inr (1, ?s\<lparr>paintLog := paintLog ?s @ [(0, py_int 3, py_int 1)],
                     particlePositions := take 0 (particlePositions ?s) @
                                          drop (Suc 0) (particlePositions ?s)\<rparr>)"
    and "drawLine_loop ?sat [(3, 1), (4, 1)] 0 ?s =
          Inr (?s\<lparr>paintLog := paintLog ?s @ [(0, py_int 3, py_int 1)],
                  particlePositions := take 0 (particlePositions ?s) @
                                       drop (Suc 0) (particlePositions ?s)\<rparr>)"
    by (simp_all add: clip_def)
  moreover from paint_saturation_rule [OF r c p i2 l refl]
  have "drawParticle demo 3 1 0 ?s =
          Inr (0, ?s\<lparr>paintLog := paintLog ?s @ [(0, py_int 3, py_int 1)],
                     pixelColourArray := (pixelColourArray ?s)
                       [1 := (pixelColourArray ?s ! 1)[3 := (clip (0 + 1) 0 255, clip (0 + 6) 0 255, clip (0 + 24) 0 255)]]\<rparr>)"
    by (simp add: clip_def)
  ultimately show ?thesis
    by (simp add: startup_def demo_def py_int_def clip_def)
qed

subsection \<open>C10: the path without interpolation\<close>

lemma processParticle_unfold:
  assumes "cur < length (particlePositions s)"
    and "particlePositions s ! cur = (x1, y1, vx1, vy1)"
    and "getNewParticlePosition cfg x1 y1 vx1 vy1 cur = Inr (x2, y2, vx2, vy2)"
    and "boundPositionToWindow cfg x2 y2 cur s = Inr ((bx, by), s1)"
  shows "processParticle cfg cur s =
     (if bx + by = 0 then Inr s1
      else if \<not> cur < length (particlePositions s1) then Inl IndexError
      else if \<not> interpolation cfg then
        (case drawParticle cfg bx by cur
                (s1\<lparr>particlePositions := (particlePositions s1)[cur := (bx, by, vx2, vy2)]\<rparr>) of
           Inl e \<Rightarrow> Inl e
         | Inr (status, s3) \<Rightarrow> Inr s3)
      else drawLine cfg x1 y1 bx by cur
             (s1\<lparr>particlePositions := (particlePositions s1)[cur := (bx, by, vx2, vy2)]\<rparr>))"
  using assms by (simp add: processParticle_def Let_def)

lemma processParticle_Inr_parts:
  assumes "processParticle cfg cur s = Inr s'"
  obtains x1 y1 vx1 vy1 x2 y2 vx2 vy2 bx "by" s1 where
    "cur < length (particlePositions s)"
    "particlePositions s ! cur = (x1, y1, vx1, vy1)"
    "getNewParticlePosition cfg x1 y1 vx1 vy1 cur = Inr (x2, y2, vx2, vy2)"
    "boundPositionToWindow cfg x2 y2 cur s = Inr ((bx, by), s1)"
proof -
  from assms have c: "cur < length (particlePositions s)"
    by (auto simp: processParticle_def split: if_splits)
  obtain x1 y1 vx1 vy1 where p: "particlePositions s ! cur = (x1, y1, vx1, vy1)"
    by (cases "particlePositions s ! cur") auto
  from assms c p obtain x2 y2 vx2 vy2 where
    g: "getNewParticlePosition cfg x1 y1 vx1 vy1 cur = Inr (x2, y2, vx2, vy2)"
    by (auto simp: processParticle_def split: sum.splits)
  from assms c p g obtain bx "by" s1 where
    "boundPositionToWindow cfg x2 y2 cur s = Inr ((bx, by), s1)"
    by (auto simp: processParticle_def split: sum.splits)
  with c p g that show thesis
    by blast
qed

lemma processParticle_single_paint:
  assumes "\<not> interpolation cfg"
    and "particlePositions s ! cur = (x1, y1, vx1, vy1)"
    and "getNewParticlePosition cfg x1 y1 vx1 vy1 cur = Inr (x2, y2, vx2, vy2)"
    and "boundPositionToWindow cfg x2 y2 cur s = Inr ((bx, by), s1)"
    and "processParticle cfg cur s = Inr s'"
  shows "if bx + by = 0 then s' = s1 \<and> paintLog s' = paintLog s
         else (\<exists>status. drawParticle cfg bx by cur
                  (s1\<lparr>particlePositions := (particlePositions s1)[cur := (bx, by, vx2, vy2)]\<rparr>) =
                  Inr (status, s')) \<and>
              paintLog s' = paintLog s @ [(cur, py_int bx, py_int by)]"
proof -
  from assms(5) have c: "cur < length (particlePositions s)"
    by (auto simp: processParticle_def split: if_splits)
  show ?thesis
  proof (cases "bx + by = 0")
  case True
  with assms(5) have "s' = s1"
    by (simp add: processParticle_unfold [OF c assms(2-4)])
  with boundPositionToWindow_Inr [OF assms(4)] True show ?thesis
    by simp
next
  case False
  let ?s2 = "s1\<lparr>particlePositions := (particlePositions s1)[cur := (bx, by, vx2, vy2)]\<rparr>"
  from assms(5) False assms(1) obtain status where
    d: "drawParticle cfg bx by cur ?s2 = Inr (status, s')"
    by (auto simp: processParticle_unfold [OF c assms(2-4)] split: if_splits sum.splits)
  from drawParticle_Inr [OF d] boundPositionToWindow_Inr [OF assms(4)]
  have "paintLog s' = paintLog s @ [(cur, py_int bx, py_int by)]"
    by simp
  with d False show ?thesis
    by auto
  qed
qed

lemma processParticle_log:
  assumes "\<not> interpolation cfg" and "processParticle cfg cur s = Inr s'"
  shows "paintLog s' = paintLog s \<or> (\<exists>cx cy. paintLog s' = paintLog s @ [(cur, cx, cy)])"
proof -
  from assms(2) obtain x1 y1 vx1 vy1 x2 y2 vx2 vy2 bx "by" s1 where
    "cur < length (particlePositions s)" and
    "particlePositions s ! cur = (x1, y1, vx1, vy1)"
    "getNewParticlePosition cfg x1 y1 vx1 vy1 cur = Inr (x2, y2, vx2, vy2)"
    "boundPositionToWindow cfg x2 y2 cur s = Inr ((bx, by), s1)"
    by (rule processParticle_Inr_parts)
  from processParticle_single_paint [OF assms(1) this(2-4) assms(2)] show ?thesis
    by (auto split: if_splits)
qed

lemma sweep_log:
  "\<not> interpolation cfg \<Longrightarrow> sweep cfg n cur s = Inr s' \<Longrightarrow>
     \<exists>new. paintLog s' = paintLog s @ new \<and> length new \<le> n - cur \<and>
           list_all (\<lambda>e. cur \<le> fst e) new \<and> sorted_wrt (<) (map fst new)"
proof (induction cfg n cur s rule: sweep.induct)
  case (1 cfg n cur s)
  show ?case
  proof (cases "cur < n \<and> cur < length (particlePositions s)")
    case False
    with "1.prems"(2) have "s' = s"
      by (subst (asm) sweep.simps) (auto split: if_splits)
    then show ?thesis
      by simp
  next
    case True
    with "1.prems"(2) obtain s1 where
      p: "processParticle cfg cur s = Inr s1" and r: "sweep cfg n (cur + 1) s1 = Inr s'"
      by (subst (asm) sweep.simps) (auto split: sum.splits)
    from True p r obtain new2 where
      n2: "paintLog s' = paintLog s1 @ new2" "length new2 \<le> n - (cur + 1)"
        "list_all (\<lambda>e. cur + 1 \<le> fst e) new2" "sorted_wrt (<) (map fst new2)"
      using "1.IH" [of s1] "1.prems"(1) by auto
    from processParticle_log [OF "1.prems"(1) p]
    consider "paintLog s1 = paintLog s" | cx cy where "paintLog s1 = paintLog s @ [(cur, cx, cy)]"
      by blast
    then show ?thesis
    proof cases
      case 1
      with n2 have "paintLog s' = paintLog s @ new2 \<and> length new2 \<le> n - cur \<and>
          list_all (\<lambda>e. cur \<le> fst e) new2 \<and> sorted_wrt (<) (map fst new2)"
        by (auto simp: list_all_iff)
      then show ?thesis
        by blast
    next
      case 2
      with n2 True have "paintLog s' = paintLog s @ ((cur, cx, cy) # new2) \<and>
          length ((cur, cx, cy) # new2) \<le> n - cur \<and>
          list_all (\<lambda>e. cur \<le> fst e) ((cur, cx, cy) # new2) \<and>
          sorted_wrt (<) (map fst ((cur, cx, cy) # new2))"
        by (auto simp: list_all_iff)
      then show ?thesis
        by blast
    qed
  qed
qed

lemma pow2_pos: "0 < pow2 e"
  by (simp add: pow2_def)

lemma round_half_even_nonneg: "0 \<le> q \<Longrightarrow> 0 \<le> round_half_even q"
  by (auto simp: round_half_even_def Let_def)

lemma float64_nonneg: "0 \<le> x \<Longrightarrow> 0 \<le> float64 x"
  by (simp add: float64_def Let_def round_half_even_nonneg pow2_pos less_imp_le)

lemma fmod_lower:
  assumes "0 < b"
  shows "- b < fmod a b"
proof -
  have "a / b - of_int (if 0 \<le> a / b then \<lfloor>a / b\<rfloor> else \<lceil>a / b\<rceil>) > - 1"
    by (auto; linarith)
  then have "b * (a / b - of_int (if 0 \<le> a / b then \<lfloor>a / b\<rfloor> else \<lceil>a / b\<rceil>)) > b * (- 1)"
    using assms by (simp only: mult_less_cancel_left_pos)
  with assms show ?thesis
    by (simp add: fmod_def right_diff_distrib)
qed

lemma py_mod_nonneg:
  assumes "0 < d"
  shows "0 \<le> py_mod x d"
proof -
  have b: "(0 :: real) < of_int d"
    using assms by simp
  from fmod_lower [OF b, of x] have "0 \<le> fmod x (of_int d) + of_int d"
    by simp
  then have "0 \<le> float64 (fmod x (of_int d) + of_int d)"
    by (rule float64_nonneg)
  with b show ?thesis
    by (auto simp: py_mod_def Let_def)
qed

lemma boundAxis_nonneg:
  assumes "boundAxis cfg d x particleID s = Inr (x', s')" and "0 < d"
  shows "0 \<le> x'"
  using assms py_mod_nonneg [OF assms(2), of x]
  by (auto simp: boundAxis_def split: if_splits sum.splits)

lemma boundAxis_in_range:
  "0 \<le> x \<Longrightarrow> x < of_int d \<Longrightarrow> boundAxis cfg d x particleID s = Inr (x, s)"
  by (simp add: boundAxis_def)

lemma np_index_nonneg: "np_index n i = Some r \<Longrightarrow> 0 \<le> i \<Longrightarrow> i < int n"
  by (auto simp: np_index_def split: if_splits)

lemma drawParticle_Inr_index:
  assumes "drawParticle cfg x y cur s = Inr (status, s')"
  shows "\<exists>r c. np_index (length (pixelColourArray s)) (py_int y) = Some r \<and>
               np_index (length (pixelColourArray s ! r)) (py_int x) = Some c"
  using assms by (auto simp: drawParticle_def Let_def split: option.splits)

lemma painted_position_in_range:
  assumes "drawParticle cfg x y cur s = Inr (status, s')"
    and "buffer_shape cfg (pixelColourArray s)"
    and "0 \<le> x" and "0 \<le> y"
  shows "x < of_int (displayWidth cfg) \<and> y < of_int (displayHeight cfg)"
proof -
  from drawParticle_Inr_index [OF assms(1)] obtain r c where
    r: "np_index (length (pixelColourArray s)) (py_int y) = Some r" and
    c: "np_index (length (pixelColourArray s ! r)) (py_int x) = Some c"
    by blast
  from np_index_Some [OF r] assms(2) have w: "length (pixelColourArray s ! r) = nat (displayWidth cfg)"
    by (simp add: buffer_shape_def list_all_length)
  from assms(2) have h: "length (pixelColourArray s) = nat (displayHeight cfg)"
    by (simp add: buffer_shape_def)
  from assms(3,4) have i: "py_int x = \<lfloor>x\<rfloor>" "py_int y = \<lfloor>y\<rfloor>" "0 \<le> \<lfloor>x\<rfloor>" "0 \<le> \<lfloor>y\<rfloor>"
    by (simp_all add: py_int_def)
  from np_index_nonneg [OF c] i w have "\<lfloor>x\<rfloor> < displayWidth cfg"
    by (simp split: if_splits)
  moreover from np_index_nonneg [OF r] i h have "\<lfloor>y\<rfloor> < displayHeight cfg"
    by (simp split: if_splits)
  ultimately show ?thesis
    by (simp add: floor_less_iff)
qed

lemma boundPositionToWindow_again:
  assumes "boundPositionToWindow cfg x y particleID s = Inr ((bx, by), s1)"
    and "0 < displayWidth cfg" and "0 < displayHeight cfg"
    and "buffer_shape cfg (pixelColourArray s2)"
    and "drawParticle cfg bx by cur s2 = Inr (status, s3)"
  shows "boundPositionToWindow cfg bx by particleID' s2 = Inr ((bx, by), s2)"
proof -
  from assms(1) obtain sa where
    a: "boundAxis cfg (displayWidth cfg) x particleID s = Inr (bx, sa)" and
    b: "boundAxis cfg (displayHeight cfg) y particleID sa = Inr (by, s1)"
    by (auto simp: boundPositionToWindow_def split: sum.splits)
  note lo = boundAxis_nonneg [OF a assms(2)] boundAxis_nonneg [OF b assms(3)]
  from painted_position_in_range [OF assms(5,4) lo] lo
  show ?thesis
    by (simp add: boundPositionToWindow_def boundAxis_in_range)
qed

text \<open>
  C10. With the interpolation flag off, each tick issues at most one paint per live
  particle, at the cell obtained by truncating the particle's boundary-clamped new
  position to integers, and the saturation-death rule applies to that single paint
  exactly as in the interpolated path.

  Tick: the calls of \<^verbatim>\<open>drawParticle\<close> made during a tick that returns are at most as
  many as there were particles, and their particle indices increase strictly, so no
  index is painted twice. Particle: for the particle at index \<open>cur\<close> with clamped new
  position \<open>(bx, by)\<close>, either the sentinel test holds and nothing is painted, or
  there is exactly one call, \<^verbatim>\<open>drawParticle(bx, by, cur)\<close>, on the state with the row
  written back, logged at the truncated cell. This is what the loop of
  \<^verbatim>\<open>drawLine\<close> does for any single sample that clamps to \<open>(bx, by)\<close>; and on a canvas
  of positive size, with the buffer in the shape it was created with, for the sample
  \<open>(bx, by)\<close> itself.
\<close>

theorem single_paint_without_interpolation:
  assumes "\<not> interpolation cfg"
  shows "(tick cfg s = Inr (running, s') \<longrightarrow>
            (\<exists>new. paintLog s' = paintLog s @ new \<and>
                   length new \<le> length (particlePositions s) \<and>
                   sorted_wrt (<) (map fst new))) \<and>
         (particlePositions s ! cur = (x1, y1, vx1, vy1) \<and>
          getNewParticlePosition cfg x1 y1 vx1 vy1 cur = Inr (x2, y2, vx2, vy2) \<and>
          boundPositionToWindow cfg x2 y2 cur s = Inr ((bx, by), s1) \<and>
          processParticle cfg cur s = Inr s'' \<longrightarrow>
            (if bx + by = 0 then s'' = s1 \<and> paintLog s'' = paintLog s
             else (\<exists>status. drawParticle cfg bx by cur
                      (s1\<lparr>particlePositions := (particlePositions s1)[cur := (bx, by, vx2, vy2)]\<rparr>) =
                      Inr (status, s'')) \<and>
                  paintLog s'' = paintLog s @ [(cur, py_int bx, py_int by)] \<and>
                  (\<forall>pos s0.
                     boundPositionToWindow cfg (fst pos) (snd pos) cur s0 =
                       Inr ((bx, by),
                            s1\<lparr>particlePositions := (particlePositions s1)[cur := (bx, by, vx2, vy2)]\<rparr>) \<longrightarrow>
                     drawLine_loop cfg [pos] cur s0 = Inr s'') \<and>
                  (0 < displayWidth cfg \<and> 0 < displayHeight cfg \<and>
                   buffer_shape cfg (pixelColourArray s) \<longrightarrow>
                     drawLine_loop cfg [(bx, by)] cur
                       (s1\<lparr>particlePositions := (particlePositions s1)[cur := (bx, by, vx2, vy2)]\<rparr>) =
                       Inr s'')))"
proof (intro conjI impI)
  assume "tick cfg s = Inr (running, s')"
  then have "sweep cfg (length (particlePositions s)) 0 s = Inr s'"
    by (auto simp: tick_def Let_def split: sum.splits)
  from sweep_log [OF assms this]
  show "\<exists>new. paintLog s' = paintLog s @ new \<and> length new \<le> length (particlePositions s) \<and>
          sorted_wrt (<) (map fst new)"
    by auto
next
  let ?s2 = "s1\<lparr>particlePositions := (particlePositions s1)[cur := (bx, by, vx2, vy2)]\<rparr>"
  assume h: "particlePositions s ! cur = (x1, y1, vx1, vy1) \<and>
          getNewParticlePosition cfg x1 y1 vx1 vy1 cur = Inr (x2, y2, vx2, vy2) \<and>
          boundPositionToWindow cfg x2 y2 cur s = Inr ((bx, by), s1) \<and>
          processParticle cfg cur s = Inr s''"
  then have p: "particlePositions s ! cur = (x1, y1, vx1, vy1)"
    and g: "getNewParticlePosition cfg x1 y1 vx1 vy1 cur = Inr (x2, y2, vx2, vy2)"
    and b: "boundPositionToWindow cfg x2 y2 cur s = Inr ((bx, by), s1)"
    and r: "processParticle cfg cur s = Inr s''"
    by simp_all
  note sp = processParticle_single_paint [OF assms p g b r]
  show "if bx + by = 0 then s'' = s1 \<and> paintLog s'' = paintLog s
        else (\<exists>status. drawParticle cfg bx by cur ?s2 = Inr (status, s'')) \<and>
             paintLog s'' = paintLog s @ [(cur, py_int bx, py_int by)] \<and>
             (\<forall>pos s0.
                boundPositionToWindow cfg (fst pos) (snd pos) cur s0 = Inr ((bx, by), ?s2) \<longrightarrow>
                drawLine_loop cfg [pos] cur s0 = Inr s'') \<and>
             (0 < displayWidth cfg \<and> 0 < displayHeight cfg \<and>
              buffer_shape cfg (pixelColourArray s) \<longrightarrow>
                drawLine_loop cfg [(bx, by)] cur ?s2 = Inr s'')"
  proof (cases "bx + by = 0")
    case True
    with sp show ?thesis
      by auto
  next
    case False
    with sp obtain status where d: "drawParticle cfg bx by cur ?s2 = Inr (status, s'')"
      and l: "paintLog s'' = paintLog s @ [(cur, py_int bx, py_int by)]"
      by auto
    have any: "drawLine_loop cfg [pos] cur s0 = Inr s''"
      if "boundPositionToWindow cfg (fst pos) (snd pos) cur s0 = Inr ((bx, by), ?s2)"
      for pos s0
      using that d False by simp
    have "drawLine_loop cfg [(bx, by)] cur ?s2 = Inr s''"
      if "0 < displayWidth cfg \<and> 0 < displayHeight cfg \<and> buffer_shape cfg (pixelColourArray s)"
    proof -
      from boundPositionToWindow_Inr [OF b] that
      have "buffer_shape cfg (pixelColourArray ?s2)"
        by simp
      with that boundPositionToWindow_again [OF b _ _ _ d, of cur]
      have "boundPositionToWindow cfg bx by cur ?s2 = Inr ((bx, by), ?s2)"
        by simp
      then show ?thesis
        using any [of "(bx, by)" ?s2] by simp
    qed
    with d l False any show ?thesis
      by auto
  qed
qed

text \<open>
  Two particles at \<open>(1, 1)\<close> and \<open>(3, 3)\<close> with \<^verbatim>\<open>blue\<close>: the tick paints once for
  each, at \<open>(3, 1)\<close> and at \<open>(5, 3)\<close>.
\<close>

theorem single_paint_without_interpolation_witness:
  "\<not> interpolation (demo\<lparr>interpolation := False\<rparr>) \<and>
   tick (demo\<lparr>interpolation := False\<rparr>) (startup demo [(1, 1), (3, 3)]) =
     Inr (True,
       \<lparr>particlePositions = [(3, 1, 2, 0), (5, 3, 2, 0)],
        pixelColourArray =
          (replicate 10 (replicate 10 (0, 0, 0)))
            [1 := (replicate 10 (0, 0, 0))[3 := (1, 6, 24)],
             3 := (replicate 10 (0, 0, 0))[5 := (1, 6, 24)]],
        paintLog = [(0, 3, 1), (1, 5, 3)]\<rparr>) \<and>
   sorted_wrt (<) (map fst [(0 :: nat, 3 :: int, 1 :: int), (1, 5, 3)]) \<and>
   processParticle (demo\<lparr>interpolation := False\<rparr>) 0 (startup demo [(1, 1), (3, 3)]) =
     drawLine_loop (demo\<lparr>interpolation := False\<rparr>) [(3, 1)] 0
       ((startup demo [(1, 1), (3, 3)])\<lparr>particlePositions := [(3, 1, 2, 0), (3, 3, 0, 0)]\<rparr>)"
proof -
  let ?cfg = "demo\<lparr>interpolation := False\<rparr>"
  let ?s = "startup demo [(1, 1), (3, 3)]"
  let ?s' = "\<lparr>particlePositions = [(3, 1, 2, 0), (5, 3, 2, 0)],
        pixelColourArray =
          (replicate 10 (replicate 10 (0, 0, 0)))
            [1 := (replicate 10 (0, 0, 0))[3 := (1, 6, 24)],
             3 := (replicate 10 (0, 0, 0))[5 := (1, 6, 24)]],
        paintLog = [(0, 3, 1), (1, 5, 3)]\<rparr>"
  let ?s'' = "\<lparr>particlePositions = [(3, 1, 2, 0), (3, 3, 0, 0)],
        pixelColourArray =
          (replicate 10 (replicate 10 (0, 0, 0)))[1 := (replicate 10 (0, 0, 0))[3 := (1, 6, 24)]],
        paintLog = [(0, 3, 1)]\<rparr>"
  have ni: "\<not> interpolation ?cfg"
    by (simp add: demo_def)
  have t: "tick ?cfg ?s = Inr (True, ?s')"
    by (simp add: eval_defs sweep.simps)
  have p: "particlePositions ?s ! 0 = (1, 1, 0, 0)"
    by (simp add: startup_def)
  have g: "getNewParticlePosition ?cfg 1 1 0 0 0 = Inr (3, 1, 2, 0)"
    by (simp add: eval_defs)
  have b: "boundPositionToWindow ?cfg 3 1 0 ?s = Inr ((3, 1), ?s)"
    by (simp add: eval_defs)
  have r: "processParticle ?cfg 0 ?s = Inr ?s''"
    by (simp add: eval_defs)
  have d: "0 < displayWidth ?cfg \<and> 0 < displayHeight ?cfg \<and>
           buffer_shape ?cfg (pixelColourArray ?s)"
    by (simp add: demo_def startup_def buffer_shape_def list_all_iff)
  have u: "?s\<lparr>particlePositions := (particlePositions ?s)[0 := (3, 1, 2, 0)]\<rparr> =
           ?s\<lparr>particlePositions := [(3, 1, 2, 0), (3, 3, 0, 0)]\<rparr>"
    by (simp add: startup_def)
  from single_paint_without_interpolation [OF ni, of ?s True ?s' 0 1 1 0 0 3 1 2 0 3 1 ?s ?s'']
    t p g b r d
  have "sorted_wrt (<) (map fst [(0 :: nat, 3 :: int, 1 :: int), (1, 5, 3)])"
    and "drawLine_loop ?cfg [(3, 1)] 0
           (?s\<lparr>particlePositions := (particlePositions ?s)[0 := (3, 1, 2, 0)]\<rparr>) = Inr ?s''"
    by simp_all
  with ni t r u show ?thesis
    by simp
qed

end
